theory Spec2Isabelle
  imports Complex_Main "HOL-Library.Multiset"
begin

section \<open>The tabular editor of traitsui.qt4\<close>

text \<open>
  The module binds an observable list (the edited value) to a toolkit table view. The
  embedding follows the two classes of the module, \<open>TabularEditor\<close> and
  \<open>_TableView\<close>, as records, and their methods as functions on the editor state.
  Python names keep their spelling without the leading underscore.

  The toolkit is outside the module. A call into it is recorded, in order, in the list
  \<open>calls\<close> of the view; what the toolkit answers to a query (the selected rows, the
  column under a position) is a field of the view. The one toolkit reaction that is part
  of the model is the \<open>sectionResized\<close> signal of the horizontal header, which
  \<open>_TableView.__init__\<close> connects to \<open>columnResized\<close>: which signals the toolkit delivers
  during a resize of a section is a field of the view, an arbitrary list.
\<close>

subsection \<open>Exceptions and outcomes\<close>

datatype py_error = ValueError | IndexError | AttributeError | Raised string

text \<open>A method returns its result or the exception it raised, and the state it left.\<close>

type_synonym ('r, 's) outcome = "(py_error + 'r) \<times> 's"

definition then_do ::
  "('r, 's) outcome \<Rightarrow> ('r \<Rightarrow> 's \<Rightarrow> ('q, 's) outcome) \<Rightarrow> ('q, 's) outcome" where
  "then_do m k = (case m of (Inl e, s) \<Rightarrow> (Inl e, s) | (Inr v, s) \<Rightarrow> k v s)"

subsection \<open>Toolkit values and calls\<close>

datatype sel_flag = ClearAndSelect | Select | Deselect | Rows

datatype scroll_hint = PositionAtCenter | PositionAtTop | PositionAtBottom | EnsureVisible

datatype key = Key_Enter | Key_Return | Key_Backspace | Key_Delete | Key_Insert | Key_Other nat

datatype menu = Menu string

record qpoint =
  pos_x :: int
  pos_y :: int

text \<open>
  The dictionary stored in \<open>_menu_context\<close>. Its other entries (\<open>selection\<close>, \<open>object\<close>,
  \<open>editor\<close>, \<open>info\<close>, \<open>handler\<close>) are references to objects that no method of the model
  changes; the column menu stores no row.
\<close>

record menu_ctx =
  ctx_column :: int
  ctx_row :: "int option"

text \<open>\<open>TabularEditorEvent\<close>; its \<open>editor\<close> trait is the back reference to the editor.\<close>

record tabular_editor_event =
  row :: int
  column :: int

datatype widget_call =
    ClearSelection
  | SelectIndex int int "sel_flag set"
  | SelectSelection "int list" "sel_flag set"
  | ScrollTo int int scroll_hint
  | SetColumnWidth nat int
  | ResizeSection nat real
  | SuperResizeColumnsToContents
  | EventAccept
  | EditIndex int int
  | RemoveRow int
  | InsertRow int
  | SetCurrentIndex int int
  | SuperKeyPressEvent key
  | CreateMenu menu
  | ExecMenu menu qpoint "menu_ctx option"

subsection \<open>Factory, adapter, view and editor\<close>

record factory =
  multi_select :: bool
  editable :: bool
  operations :: "string list"
  auto_resize :: bool
  scroll_to_position_hint :: string

text \<open>
  The adapter is supplied by the user of the editor. \<open>get_item\<close> may raise; the object
  and the trait name, which every call passes, are fixed.
\<close>

record 'a adapter =
  columns :: "string list"
  get_item :: "int \<Rightarrow> py_error + 'a option"
  get_width :: "nat \<Rightarrow> real"
  get_column_menu :: "int \<Rightarrow> int \<Rightarrow> menu option"
  len :: int

text \<open>
  \<open>_TableView\<close>: its two attributes \<open>_user_widths\<close> and \<open>_is_resizing\<close>, the calls made
  on the toolkit so far, and the toolkit's answers. \<open>sectionResized c w\<close> lists the
  signals \<open>(index, old, new)\<close> the header delivers while \<open>resizeSection(c, w)\<close> runs,
  \<open>super_sectionResized\<close> those the toolkit's own \<open>resizeColumnsToContents\<close> delivers,
  and \<open>resizeSection_raises c w\<close> is the exception \<open>resizeSection(c, w)\<close> raises, if any.
  \<open>create_menu_raises m\<close> and \<open>exec_raises m\<close> are the exceptions that creating the
  toolkit menu of \<open>m\<close> and executing it raise, if any.
\<close>

record view =
  user_widths :: "int option list option"
  is_resizing :: bool
  calls :: "widget_call list"
  selectedRows :: "int list"
  columnAt :: "int \<Rightarrow> int"
  columnWidth :: "nat \<Rightarrow> int"
  viewport_width :: int
  sectionSizeHint :: "nat \<Rightarrow> int"
  super_sizeHintForColumn :: "nat \<Rightarrow> int"
  editing_state :: bool
  sectionResized :: "nat \<Rightarrow> real \<Rightarrow> (nat \<times> int \<times> int) list"
  super_sectionResized :: "(nat \<times> int \<times> int) list"
  resizeSection_raises :: "nat \<Rightarrow> real \<Rightarrow> py_error option"
  create_menu_raises :: "menu \<Rightarrow> py_error option"
  exec_raises :: "menu \<Rightarrow> py_error option"

text \<open>
  \<open>TabularEditor\<close>. An item is \<open>'a option\<close>, \<open>None\<close> being Python's \<open>None\<close>;
  \<open>editor_value\<close> is \<open>self.value\<close>, the edited list. The factory is \<open>None\<close> once the
  editor is disposed of, which \<open>columnResized\<close> tests.
\<close>

record 'a editor =
  no_update :: bool
  no_notify :: bool
  selected :: "'a option"
  multi_selected :: "'a option list"
  selected_row :: int
  multi_selected_rows :: "int list"
  selected_column :: int
  column_right_clicked :: "tabular_editor_event option"
  menu_context :: "menu_ctx option"
  editor_value :: "'a option list"
  factory :: "factory option"
  adapter :: "'a adapter"
  control :: view

definition call :: "widget_call \<Rightarrow> 'a editor \<Rightarrow> 'a editor" where
  "call c s = s\<lparr>control := (control s)\<lparr>calls := calls (control s) @ [c]\<rparr>\<rparr>"

fun call_all :: "widget_call list \<Rightarrow> 'a editor \<Rightarrow> 'a editor" where
  "call_all [] s = s"
| "call_all (c # cs) s = call_all cs (call c s)"

subsection \<open>callx and setx\<close>

text \<open>
  \<open>callx(func, *args, **kw)\<close>: \<open>func\<close> with its arguments is any computation on the
  editor, which may raise.
\<close>

definition callx ::
  "('a editor \<Rightarrow> (unit, 'a editor) outcome) \<Rightarrow> 'a editor \<Rightarrow> (unit, 'a editor) outcome" where
  "callx func s =
     (let old = no_update s;
          (r, s') = func (s\<lparr>no_update := True\<rparr>)
      in (r, s'\<lparr>no_update := old\<rparr>))"

text \<open>
  \<open>setx(**keywords)\<close>: \<open>setattr\<close> on a trait runs the handlers of that trait, so it is
  any computation on the editor; the loop stops at the first exception.
\<close>

fun setattr_all ::
  "(string \<Rightarrow> 'v \<Rightarrow> 's \<Rightarrow> (unit, 's) outcome) \<Rightarrow> (string \<times> 'v) list \<Rightarrow> 's \<Rightarrow> (unit, 's) outcome" where
  "setattr_all setattr [] s = (Inr (), s)"
| "setattr_all setattr ((name, v) # keywords) s =
     then_do (setattr name v s) (\<lambda>_. setattr_all setattr keywords)"

definition setx ::
  "(string \<Rightarrow> 'v \<Rightarrow> 'a editor \<Rightarrow> (unit, 'a editor) outcome) \<Rightarrow> (string \<times> 'v) list \<Rightarrow>
   'a editor \<Rightarrow> (unit, 'a editor) outcome" where
  "setx setattr keywords s =
     (let old = no_notify s;
          (r, s') = setattr_all setattr keywords (s\<lparr>no_notify := True\<rparr>)
      in (r, s'\<lparr>no_notify := old\<rparr>))"

subsection \<open>Selection: from the traits to the widget\<close>

text \<open>\<open>values.index(v)\<close>: the first position of \<open>v\<close>, or \<open>ValueError\<close>.\<close>

fun index_of :: "'b list \<Rightarrow> 'b \<Rightarrow> py_error + int" where
  "index_of [] v = Inl ValueError"
| "index_of (u # us) v =
     (if u = v then Inr 0
      else (case index_of us v of Inl e \<Rightarrow> Inl e | Inr i \<Rightarrow> Inr (i + 1)))"

text \<open>\<open>[values.index(i) for i in new]\<close>: the first failing lookup ends the comprehension.\<close>

fun index_all :: "'b list \<Rightarrow> 'b list \<Rightarrow> py_error + int list" where
  "index_all vs [] = Inr []"
| "index_all vs (i # is) =
     (case index_of vs i of
        Inl e \<Rightarrow> Inl e
      | Inr r \<Rightarrow> (case index_all vs is of Inl e \<Rightarrow> Inl e | Inr rs \<Rightarrow> Inr (r # rs)))"

definition SCROLL_TO_POSITION_HINT_MAP :: "string \<rightharpoonup> scroll_hint" where
  "SCROLL_TO_POSITION_HINT_MAP =
     [''center'' \<mapsto> PositionAtCenter, ''top'' \<mapsto> PositionAtTop,
      ''bottom'' \<mapsto> PositionAtBottom, ''visible'' \<mapsto> EnsureVisible]"

text \<open>\<open>SCROLL_TO_POSITION_HINT_MAP.get(hint, self.control.EnsureVisible)\<close>\<close>

definition position_hint :: "string \<Rightarrow> scroll_hint" where
  "position_hint hint =
     (case SCROLL_TO_POSITION_HINT_MAP hint of None \<Rightarrow> EnsureVisible | Some h \<Rightarrow> h)"

definition scroll_to_row_changed :: "int \<Rightarrow> 'a editor \<Rightarrow> (unit, 'a editor) outcome" where
  "scroll_to_row_changed r s =
     (case factory s of
        None \<Rightarrow> (Inl AttributeError, s)
      | Some f \<Rightarrow>
          (let scroll_hint = position_hint (scroll_to_position_hint f)
           in (Inr (), call (ScrollTo r (max (selected_column s) 0) scroll_hint) s)))"

text \<open>
  The trait framework calls the change handler of a trait inside its own exception
  handler: an exception the handler raises is logged there, what the handler did before
  raising stays, and the assignment returns normally.
\<close>

definition notify :: "('r, 's) outcome \<Rightarrow> (unit, 's) outcome" where
  "notify m = (Inr (), snd m)"

text \<open>
  \<open>scroll_to_row\<close> is an event trait: every assignment calls \<open>_scroll_to_row_changed\<close>
  with the assigned row.
\<close>

definition set_scroll_to_row :: "int \<Rightarrow> 'a editor \<Rightarrow> (unit, 'a editor) outcome" where
  "set_scroll_to_row r s = notify (scroll_to_row_changed r s)"

definition selected_row_changed :: "int \<Rightarrow> 'a editor \<Rightarrow> (unit, 'a editor) outcome" where
  "selected_row_changed r s =
     (if \<not> no_update s then
        if r < 0 then (Inr (), call ClearSelection s)
        else set_scroll_to_row r
               (call (SelectIndex r (max (selected_column s) 0) {ClearAndSelect, Rows}) s)
      else (Inr (), s))"

text \<open>
  \<open>raise_to_debug\<close> is imported from \<open>traitsui.api\<close>, another module. It is the
  parameter \<open>rtd\<close>: called in the handler of the exception \<open>e\<close>, it returns (\<open>None\<close>) or
  raises (\<open>Some e'\<close>).
\<close>

definition selected_changed ::
  "(py_error \<Rightarrow> py_error option) \<Rightarrow> 'a option \<Rightarrow> 'a editor \<Rightarrow> (unit, 'a editor) outcome" where
  "selected_changed rtd new s =
     (if \<not> no_update s then
        (case new of
           None \<Rightarrow> selected_row_changed (- 1) s
         | Some _ \<Rightarrow>
             (case index_of (editor_value s) new of
                Inl e \<Rightarrow> (case rtd e of None \<Rightarrow> (Inr (), s) | Some e' \<Rightarrow> (Inl e', s))
              | Inr r \<Rightarrow> selected_row_changed r s))
      else (Inr (), s))"

definition multi_selected_rows_changed :: "int list \<Rightarrow> 'a editor \<Rightarrow> 'a editor" where
  "multi_selected_rows_changed selected_rows s =
     (if \<not> no_update s
      then call (SelectSelection selected_rows {Select, Rows}) (call ClearSelection s)
      else s)"

text \<open>\<open>TraitListEvent\<close>, of items or of rows.\<close>

record 'b trait_list_event =
  index :: int
  added :: "'b list"
  removed :: "'b list"

definition multi_selected_rows_items_changed :: "int trait_list_event \<Rightarrow> 'a editor \<Rightarrow> 'a editor" where
  "multi_selected_rows_items_changed event s =
     (if \<not> no_update s
      then call_all (map (\<lambda>r. SelectIndex r 0 {Select, Rows}) (added event))
             (call_all (map (\<lambda>r. SelectIndex r 0 {Deselect, Rows}) (removed event)) s)
      else s)"

definition multi_selected_changed :: "'a option list \<Rightarrow> 'a editor \<Rightarrow> (unit, 'a editor) outcome" where
  "multi_selected_changed new s =
     (if \<not> no_update s then
        (case index_all (editor_value s) new of
           Inl e \<Rightarrow> (Inr (), s)
         | Inr rows \<Rightarrow> (Inr (), multi_selected_rows_changed rows s))
      else (Inr (), s))"

definition multi_selected_items_changed ::
  "'a option trait_list_event \<Rightarrow> 'a editor \<Rightarrow> (unit, 'a editor) outcome" where
  "multi_selected_items_changed event s =
     (case index_all (editor_value s) (added event) of
        Inl e \<Rightarrow> (Inr (), s)
      | Inr a \<Rightarrow>
          (case index_all (editor_value s) (removed event) of
             Inl e \<Rightarrow> (Inr (), s)
           | Inr r \<Rightarrow>
               (Inr (), multi_selected_rows_items_changed
                          \<lparr>index = 0, added = a, removed = r\<rparr> s)))"

subsection \<open>Selection: from the widget to the traits\<close>

text \<open>
  Assigning a trait stores the value and, when the value has changed, notifies the
  handler \<open>_<name>_changed\<close> of the editor with the new value. Assigning the value the
  trait already has does nothing.
\<close>

definition set_selected_row :: "int \<Rightarrow> 'a editor \<Rightarrow> (unit, 'a editor) outcome" where
  "set_selected_row r s =
     (if selected_row s = r then (Inr (), s)
      else notify (selected_row_changed r (s\<lparr>selected_row := r\<rparr>)))"

definition set_selected ::
  "(py_error \<Rightarrow> py_error option) \<Rightarrow> 'a option \<Rightarrow> 'a editor \<Rightarrow> (unit, 'a editor) outcome" where
  "set_selected rtd v s =
     (if selected s = v then (Inr (), s)
      else notify (selected_changed rtd v (s\<lparr>selected := v\<rparr>)))"

definition on_row_selection ::
  "(py_error \<Rightarrow> py_error option) \<Rightarrow> 'a editor \<Rightarrow> (unit, 'a editor) outcome" where
  "on_row_selection rtd s =
     (let (r, s') =
            (case selectedRows (control s) of
               i # _ \<Rightarrow>
                 then_do (set_selected_row i (s\<lparr>no_update := True\<rparr>)) (\<lambda>_ s1.
                   case get_item (adapter s1) (selected_row s1) of
                     Inl e \<Rightarrow> (Inl e, s1)
                   | Inr item \<Rightarrow> set_selected rtd item s1)
             | [] \<Rightarrow>
                 then_do (set_selected_row (- 1) (s\<lparr>no_update := True\<rparr>)) (\<lambda>_.
                   set_selected rtd None))
      in (r, s'\<lparr>no_update := False\<rparr>))"

subsection \<open>Context menu of the header\<close>

definition on_column_right_click :: "int \<Rightarrow> 'a editor \<Rightarrow> 'a editor" where
  "on_column_right_click c s = s\<lparr>column_right_clicked := Some \<lparr>row = 0, column = c\<rparr>\<rparr>"

text \<open>
  \<open>qmenu.exec_\<close> runs the menu; the call recorded for it carries the \<open>_menu_context\<close>
  that the menu's actions find while it runs. No \<open>try\<close> statement encloses the two
  calls: an exception of either leaves the method at once.
\<close>

definition on_column_context_menu :: "qpoint \<Rightarrow> 'a editor \<Rightarrow> (unit, 'a editor) outcome" where
  "on_column_context_menu pos s =
     (let c = columnAt (control s) (pos_x pos)
      in case get_column_menu (adapter s) (- 1) c of
           Some m \<Rightarrow>
             (let s1 = s\<lparr>menu_context := Some \<lparr>ctx_column = c, ctx_row = None\<rparr>\<rparr>
              in case create_menu_raises (control s1) m of
                   Some e \<Rightarrow> (Inl e, s1)
                 | None \<Rightarrow>
                     (let s2 = call (CreateMenu m) s1
                      in case exec_raises (control s2) m of
                           Some e \<Rightarrow> (Inl e, s2)
                         | None \<Rightarrow>
                             (let s3 = call (ExecMenu m pos (menu_context s2)) s2
                              in (Inr (), s3\<lparr>menu_context := None\<rparr>))))
         | None \<Rightarrow> (Inr (), on_column_right_click c s))"

subsection \<open>Keyboard\<close>

text \<open>
  \<open>_TableView.keyPressEvent\<close>. The conditions read the factory only after the key (and,
  for the edit keys, the view state) has matched, so a disposed editor raises there only.
\<close>

definition keyPressEvent :: "key \<Rightarrow> 'a editor \<Rightarrow> (unit, 'a editor) outcome" where
  "keyPressEvent k s =
     (case factory s of
        None \<Rightarrow>
          if (k \<in> {Key_Enter, Key_Return} \<and> \<not> editing_state (control s))
             \<or> k \<in> {Key_Backspace, Key_Delete} \<or> k = Key_Insert
          then (Inl AttributeError, s)
          else (Inr (), call (SuperKeyPressEvent k) s)
      | Some f \<Rightarrow>
          if k \<in> {Key_Enter, Key_Return} \<and> \<not> editing_state (control s)
             \<and> editable f \<and> ''edit'' \<in> set (operations f)
          then
            (let r = (if multi_select f
                      then (let rows = multi_selected_rows s
                            in if length rows = 1 then rows ! 0 else - 1)
                      else selected_row s)
             in if r \<noteq> - 1 then (Inr (), call (EditIndex r 0) (call EventAccept s))
                else (Inr (), s))
          else if k \<in> {Key_Backspace, Key_Delete} \<and> editable f
                  \<and> ''delete'' \<in> set (operations f)
          then
            (let s1 = call EventAccept s
             in if multi_select f
                then (Inr (), call_all (map RemoveRow (rev (sort (multi_selected_rows s)))) s1)
                else if selected_row s \<noteq> - 1
                then (Inr (), call (RemoveRow (selected_row s)) s1)
                else (Inr (), s1))
          else if k = Key_Insert \<and> editable f \<and> ''insert'' \<in> set (operations f)
          then
            (let s1 = call EventAccept s;
                 r0 = (if multi_select f
                       then (let rows = sort (multi_selected_rows s)
                             in if length rows \<noteq> 0 then rows ! 0 else - 1)
                       else selected_row s);
                 r = (if r0 = - 1 then len (adapter s) else r0)
             in (Inr (), call (SetCurrentIndex r 0) (call (InsertRow r) s1)))
          else (Inr (), call (SuperKeyPressEvent k) s))"

text \<open>The rows that a sequence of calls removes from the model, in the order of the calls.\<close>

fun removed_rows :: "widget_call list \<Rightarrow> int list" where
  "removed_rows [] = []"
| "removed_rows (RemoveRow r # cs) = r # removed_rows cs"
| "removed_rows (c # cs) = removed_rows cs"

subsection \<open>Column widths\<close>

text \<open>
  \<open>_TableView.sizeHintForColumn\<close>. The width an adapter supplies is a number of pixels
  when it is greater than 1, and a share of the free space otherwise.
\<close>

definition size_hint :: "factory \<Rightarrow> nat \<Rightarrow> 'a editor \<Rightarrow> real" where
  "size_hint f c s =
     (if auto_resize f then real_of_int (super_sizeHintForColumn (control s) c)
      else (let width = get_width (adapter s) c
            in if width > 1 then width
               else real_of_int (sectionSizeHint (control s) c)))"

definition sizeHintForColumn :: "nat \<Rightarrow> 'a editor \<Rightarrow> py_error + real" where
  "sizeHintForColumn c s =
     (case factory s of None \<Rightarrow> Inl AttributeError | Some f \<Rightarrow> Inr (size_hint f c s))"

text \<open>
  \<open>compute_column_widths\<close> is imported from \<open>traitsui.helper\<close>, another module: it is
  the parameter \<open>ccw\<close> of the functions below, applied to the available space, the
  requested widths, the minimum widths and the user widths.
\<close>

type_synonym compute_column_widths =
  "real \<Rightarrow> real list \<Rightarrow> real list \<Rightarrow> int option list option \<Rightarrow> real list"

definition set_is_resizing :: "bool \<Rightarrow> 'a editor \<Rightarrow> 'a editor" where
  "set_is_resizing b s = s\<lparr>control := (control s)\<lparr>is_resizing := b\<rparr>\<rparr>"

definition set_user_widths :: "int option list option \<Rightarrow> 'a editor \<Rightarrow> 'a editor" where
  "set_user_widths u s = s\<lparr>control := (control s)\<lparr>user_widths := u\<rparr>\<rparr>"

text \<open>
  The toolkit delivers signals to the slot connected to \<open>sectionResized\<close>, one after the
  other. A computation that runs out of fuel has no result (\<open>None\<close>).
\<close>

fun deliver ::
  "(nat \<Rightarrow> int \<Rightarrow> int \<Rightarrow> 's \<Rightarrow> (unit, 's) outcome option) \<Rightarrow> (nat \<times> int \<times> int) list \<Rightarrow> 's \<Rightarrow>
   (unit, 's) outcome option" where
  "deliver slot [] s = Some (Inr (), s)"
| "deliver slot ((i, old, new) # signals) s =
     (case slot i old new s of
        None \<Rightarrow> None
      | Some (Inl e, s') \<Rightarrow> Some (Inl e, s')
      | Some (Inr _, s') \<Rightarrow> deliver slot signals s')"

text \<open>
  \<open>for column, width in enumerate(widths): hheader.resizeSection(column, width)\<close>, the
  header delivering its signals during each call.
\<close>

fun resize_sections ::
  "(nat \<Rightarrow> int \<Rightarrow> int \<Rightarrow> 'a editor \<Rightarrow> (unit, 'a editor) outcome option) \<Rightarrow> (nat \<times> real) list \<Rightarrow>
   'a editor \<Rightarrow> (unit, 'a editor) outcome option" where
  "resize_sections slot [] s = Some (Inr (), s)"
| "resize_sections slot ((c, w) # rest) s =
     (case resizeSection_raises (control s) c w of
        Some e \<Rightarrow> Some (Inl e, s)
      | None \<Rightarrow>
          (case deliver slot (sectionResized (control s) c w) (call (ResizeSection c w) s) of
             None \<Rightarrow> None
           | Some (Inl e, s') \<Rightarrow> Some (Inl e, s')
           | Some (Inr _, s') \<Rightarrow> resize_sections slot rest s'))"

text \<open>
  \<open>columnResized\<close> calls \<open>resizeColumnsToContents\<close>, whose resizes make the header call
  \<open>columnResized\<close> again. The first argument after \<open>ccw\<close> is the fuel: the depth of calls
  still allowed.
\<close>

fun columnResized ::
  "compute_column_widths \<Rightarrow> nat \<Rightarrow> nat \<Rightarrow> int \<Rightarrow> int \<Rightarrow> 'a editor \<Rightarrow>
   (unit, 'a editor) outcome option"
and resizeColumnsToContents ::
  "compute_column_widths \<Rightarrow> nat \<Rightarrow> 'a editor \<Rightarrow> (unit, 'a editor) outcome option" where
  "columnResized ccw 0 i old new s = None"
| "columnResized ccw (Suc k) i old new s =
     (if \<not> is_resizing (control s) then
        (let uw = (case user_widths (control s) of
                     None \<Rightarrow> replicate (length (columns (adapter s))) None
                   | Some u \<Rightarrow> u);
             s1 = set_user_widths (Some uw) s
         in if i < length uw then
              (let s2 = set_user_widths (Some (uw[i := Some new])) s1
               in case factory s2 of
                    None \<Rightarrow> Some (Inr (), s2)
                  | Some f \<Rightarrow>
                      if \<not> auto_resize f then resizeColumnsToContents ccw k s2
                      else Some (Inr (), s2))
            else Some (Inl IndexError, s1))
      else Some (Inr (), s))"
| "resizeColumnsToContents ccw 0 s = None"
| "resizeColumnsToContents ccw (Suc k) s =
     (case factory s of
        None \<Rightarrow> Some (Inl AttributeError, s)
      | Some f \<Rightarrow>
          if auto_resize f
          then deliver (columnResized ccw k) (super_sectionResized (control s))
                 (call SuperResizeColumnsToContents s)
          else
            (let available_space = real_of_int (viewport_width (control s));
                 cols = [0..<length (columns (adapter s))];
                 requested = map (get_width (adapter s)) cols;
                 min_widths = map (\<lambda>c. size_hint f c s) cols;
                 widths = ccw available_space requested min_widths (user_widths (control s))
             in case resize_sections (columnResized ccw k)
                       (zip [0..<length widths] widths) (set_is_resizing True s) of
                  None \<Rightarrow> None
                | Some (r, s') \<Rightarrow> Some (r, set_is_resizing False s')))"

declare columnResized.simps [simp del] resizeColumnsToContents.simps [simp del]

subsection \<open>Preferences\<close>










subsection \<open>A small editor\<close>

text \<open>
  An editor of three items in two columns, the first 80 pixels wide, the second taking
  half of the free space, with the second row selected in the widget.
\<close>

definition example_factory :: factory where
  "example_factory =
     \<lparr>multi_select = False, editable = True, operations = [''delete'', ''edit'', ''insert''],
      auto_resize = False, scroll_to_position_hint = ''center''\<rparr>"

definition example_adapter :: "nat adapter" where
  "example_adapter =
     \<lparr>columns = [''name'', ''age''],
      get_item = (\<lambda>r. if 0 \<le> r \<and> r < 3 then Inr (Some (nat r + 10)) else Inl IndexError),
      get_width = (\<lambda>c. if c = 0 then 80 else 1 / 2),
      get_column_menu = (\<lambda>r c. if c = 0 then Some (Menu ''column'') else None),
      len = 3\<rparr>"

definition example_view :: view where
  "example_view =
     \<lparr>user_widths = None, is_resizing = False, calls = [], selectedRows = [1],
      columnAt = (\<lambda>x. if 0 \<le> x \<and> x < 80 then 0 else if 80 \<le> x \<and> x < 200 then 1 else - 1),
      columnWidth = (\<lambda>c. if c = 0 then 80 else 120),
      viewport_width = 200,
      sectionSizeHint = (\<lambda>c. 40),
      super_sizeHintForColumn = (\<lambda>c. 60),
      editing_state = False,
      sectionResized = (\<lambda>c w. [(c, 100, 50)]),
      super_sectionResized = [(0, 100, 50)],
      resizeSection_raises = (\<lambda>c w. None),
      create_menu_raises = (\<lambda>m. None),
      exec_raises = (\<lambda>m. None)\<rparr>"

definition example_editor :: "nat editor" where
  "example_editor =
     \<lparr>no_update = False, no_notify = False, selected = None, multi_selected = [],
      selected_row = - 1, multi_selected_rows = [], selected_column = - 1,
      column_right_clicked = None, menu_context = None,
      editor_value = [Some 10, Some 11, Some 12],
      factory = Some example_factory, adapter = example_adapter, control = example_view\<rparr>"

text \<open>The same editor in multi-select mode, its row trait naming the second row twice.\<close>

definition example_multi_editor :: "nat editor" where
  "example_multi_editor =
     example_editor
       \<lparr>multi_selected_rows := [1, 1],
        factory := Some (example_factory\<lparr>multi_select := True\<rparr>)\<rparr>"

text \<open>The same editor with \<open>auto_resize\<close> set.\<close>

definition example_auto_editor :: "nat editor" where
  "example_auto_editor =
     example_editor\<lparr>factory := Some (example_factory\<lparr>auto_resize := True\<rparr>)\<rparr>"

text \<open>A layout that gives every column its minimum width.\<close>

definition example_ccw :: compute_column_widths where
  "example_ccw available requested min_ws user_ws = min_ws"

text \<open>
  \<open>raise_to_debug\<close> as it behaves with debugging switched off, where it returns, and
  switched on, where it raises the exception being handled again.
\<close>

definition raise_to_debug_off :: "py_error \<Rightarrow> py_error option" where
  "raise_to_debug_off e = None"

definition raise_to_debug_on :: "py_error \<Rightarrow> py_error option" where
  "raise_to_debug_on e = Some e"

text \<open>The same editor with a column menu whose execution raises.\<close>

definition example_failing_menu_editor :: "nat editor" where
  "example_failing_menu_editor =
     example_editor
       \<lparr>control := example_view\<lparr>exec_raises := (\<lambda>m. Some (Raised ''action''))\<rparr>\<rparr>"






lemmas example_defs =
  example_editor_def example_view_def example_adapter_def example_factory_def

section \<open>Properties\<close>

subsection \<open>Sequencing\<close>

lemma then_do_Inr [simp]: "then_do (Inr v, s) k = k v s"
  by (simp add: then_do_def)

lemma then_do_Inl [simp]: "then_do (Inl e, s) k = (Inl e, s)"
  by (simp add: then_do_def)

subsection \<open>Calls on the widget\<close>

lemma call_all_eq:
  "call_all cs s = s\<lparr>control := (control s)\<lparr>calls := calls (control s) @ cs\<rparr>\<rparr>"
  by (induction cs arbitrary: s) (simp_all add: call_def)

lemma example_columns: "[0..<2] = [0, 1::nat]"
  by (simp add: upt_rec)

subsection \<open>A failed lookup of the selection\<close>

lemma index_of_absent: "v \<notin> set vs \<Longrightarrow> index_of vs v = Inl ValueError"
  by (induction vs) auto

lemma index_all_absent: "x \<in> set new \<Longrightarrow> x \<notin> set vs \<Longrightarrow> \<exists>e. index_all vs new = Inl e"
  by (induction new) (auto simp: index_of_absent split: sum.splits)

text \<open>
  Claim C1, as amended. Let \<open>x\<close> be a value that does not occur in the edited list. In
  single-select mode, when \<open>x\<close> is not \<open>None\<close>, \<open>_selected_changed\<close> catches the failure of
  \<open>self.value.index(x)\<close>, leaves the editor and its widget as they were, and calls
  \<open>raise_to_debug\<close>: it returns normally when \<open>raise_to_debug\<close> returns, and raises what
  \<open>raise_to_debug\<close> raises otherwise. In multi-select mode, when \<open>x\<close> is among the values
  assigned to \<open>multi_selected\<close>, or among the items added to or removed from it,
  \<open>_multi_selected_changed\<close> and \<open>_multi_selected_items_changed\<close> return normally and
  leave the editor and its widget as they were.
\<close>

theorem selection_lookup_failure_suppressed:
  assumes "x \<notin> set (editor_value s)"
  shows "(x = Some v \<longrightarrow> snd (selected_changed rtd x s) = s)
       \<and> (x = Some v \<and> rtd ValueError = None \<longrightarrow> selected_changed rtd x s = (Inr (), s))
       \<and> (x = Some v \<and> rtd ValueError = Some e \<and> \<not> no_update s \<longrightarrow>
            selected_changed rtd x s = (Inl e, s))
       \<and> (x \<in> set new \<longrightarrow> multi_selected_changed new s = (Inr (), s))
       \<and> (x \<in> set (added event) \<union> set (removed event) \<longrightarrow>
            multi_selected_items_changed event s = (Inr (), s))"
proof -
  have single: "x = Some v \<Longrightarrow> snd (selected_changed rtd x s) = s"
    using assms by (simp add: selected_changed_def index_of_absent split: option.splits)
  have single': "x = Some v \<Longrightarrow> rtd ValueError = None \<Longrightarrow>
      selected_changed rtd x s = (Inr (), s)"
    using assms by (simp add: selected_changed_def index_of_absent)
  have debug: "x = Some v \<Longrightarrow> rtd ValueError = Some e \<Longrightarrow> \<not> no_update s \<Longrightarrow>
      selected_changed rtd x s = (Inl e, s)"
    using assms by (simp add: selected_changed_def index_of_absent)
  have multi: "x \<in> set new \<Longrightarrow> multi_selected_changed new s = (Inr (), s)"
    using assms index_all_absent[of x new "editor_value s"]
    by (auto simp: multi_selected_changed_def)
  have items: "x \<in> set (added event) \<union> set (removed event) \<Longrightarrow>
      multi_selected_items_changed event s = (Inr (), s)"
    using assms index_all_absent[of x "added event" "editor_value s"]
      index_all_absent[of x "removed event" "editor_value s"]
    by (auto simp: multi_selected_items_changed_def split: sum.splits)
  from single single' debug multi items show ?thesis by blast
qed

theorem selection_lookup_failure_suppressed_witness:
  "Some 99 \<notin> set (editor_value example_editor)
   \<and> raise_to_debug_off ValueError = None
   \<and> selected_changed raise_to_debug_off (Some 99) example_editor = (Inr (), example_editor)
   \<and> multi_selected_changed [Some 10, Some 99] example_editor = (Inr (), example_editor)
   \<and> multi_selected_items_changed \<lparr>index = 0, added = [Some 10], removed = [Some 99]\<rparr>
        example_editor = (Inr (), example_editor)"
proof -
  have absent: "Some 99 \<notin> set (editor_value example_editor)"
    by (simp add: example_defs)
  have off: "raise_to_debug_off ValueError = None"
    by (simp add: raise_to_debug_off_def)
  show ?thesis
    using absent off
      selection_lookup_failure_suppressed [OF absent, where v = 99 and rtd = raise_to_debug_off
        and new = "[Some 10, Some 99]" and e = ValueError
        and event = "\<lparr>index = 0, added = [Some 10], removed = [Some 99]\<rparr>"]
    by simp
qed

text \<open>
  The claim as first stated lets no exception out of \<open>_selected_changed\<close> and no value
  outside the list change the selection of the widget. With debugging switched on,
  \<open>raise_to_debug\<close> raises the \<open>ValueError\<close> of the lookup again; and \<open>None\<close>, which is not
  in the list of the example, is not looked up: it clears the selection.
\<close>

theorem selection_lookup_failure_counterexample:
  "Some 99 \<notin> set (editor_value example_editor)
   \<and> selected_changed raise_to_debug_on (Some 99) example_editor
       = (Inl ValueError, example_editor)
   \<and> None \<notin> set (editor_value example_editor)
   \<and> selected_changed raise_to_debug_off None example_editor
       = (Inr (), call ClearSelection example_editor)"
  by (simp add: selected_changed_def selected_row_changed_def raise_to_debug_on_def
      example_defs)

subsection \<open>The selection callback of the widget\<close>

lemma selected_row_changed_no_update [simp]:
  "no_update s \<Longrightarrow> selected_row_changed r s = (Inr (), s)"
  by (simp add: selected_row_changed_def)

lemma selected_changed_no_update [simp]:
  "no_update s \<Longrightarrow> selected_changed rtd v s = (Inr (), s)"
  by (simp add: selected_changed_def)

lemma set_selected_row_no_update:
  "no_update s \<Longrightarrow> set_selected_row r s = (Inr (), s\<lparr>selected_row := r\<rparr>)"
  by (cases "selected_row s = r") (auto simp: set_selected_row_def notify_def)

lemma set_selected_no_update:
  "no_update s \<Longrightarrow> set_selected rtd v s = (Inr (), s\<lparr>selected := v\<rparr>)"
  by (cases "selected s = v") (auto simp: set_selected_def notify_def)

text \<open>
  Claim C2. In single-select mode, on a selection-changed callback of the widget: when
  the list of selected rows of the widget is not empty, \<open>_on_row_selection\<close> sets
  \<open>selected_row\<close> to the first selected row and \<open>selected\<close> to the item the adapter gives
  for that row; when the list is empty, it sets \<open>selected_row\<close> to -1 and \<open>selected\<close> to
  \<open>None\<close>. Nothing else of the editor changes, and in every case, also when the adapter
  raises, \<open>_no_update\<close> is \<open>False\<close> afterwards.
\<close>

theorem on_row_selection_sync:
  "(selectedRows (control s) = i # rest \<and> get_item (adapter s) i = Inr item \<longrightarrow>
      on_row_selection rtd s =
        (Inr (), s\<lparr>selected_row := i, selected := item, no_update := False\<rparr>))
   \<and> (selectedRows (control s) = [] \<longrightarrow>
      on_row_selection rtd s =
        (Inr (), s\<lparr>selected_row := - 1, selected := None, no_update := False\<rparr>))
   \<and> no_update (snd (on_row_selection rtd s)) = False"
  by (simp add: on_row_selection_def set_selected_row_no_update set_selected_no_update
      split: list.splits prod.splits sum.splits)

theorem on_row_selection_sync_witness:
  "selectedRows (control example_editor) = [1]
   \<and> get_item (adapter example_editor) 1 = Inr (Some 11)
   \<and> on_row_selection (\<lambda>e. None) example_editor =
       (Inr (), example_editor\<lparr>selected_row := 1, selected := Some 11, no_update := False\<rparr>)
   \<and> on_row_selection (\<lambda>e. None) (example_editor\<lparr>control := example_view\<lparr>selectedRows := []\<rparr>\<rparr>) =
       (Inr (), example_editor\<lparr>control := example_view\<lparr>selectedRows := []\<rparr>,
          selected_row := - 1, selected := None, no_update := False\<rparr>)"
proof -
  have rows: "selectedRows (control example_editor) = [1]"
    and item: "get_item (adapter example_editor) 1 = Inr (Some 11)"
    and none: "selectedRows (control (example_editor\<lparr>control := example_view\<lparr>selectedRows := []\<rparr>\<rparr>)) = []"
    by (simp_all add: example_defs)
  show ?thesis
    using rows item none
      on_row_selection_sync [of example_editor 1 "[]" "Some 11" "\<lambda>e. None"]
      on_row_selection_sync [of "example_editor\<lparr>control := example_view\<lparr>selectedRows := []\<rparr>\<rparr>"
        1 "[]" "Some 11" "\<lambda>e. None"]
    by simp
qed

subsection \<open>The flags of callx and setx\<close>

text \<open>
  Claim C8. \<open>callx\<close> leaves \<open>_no_update\<close> as it found it, and \<open>setx\<close> leaves \<open>_no_notify\<close>
  as it found it, whatever the wrapped call or the assignments do to the editor and
  whether they return or raise; the exception of the wrapped call, if any, is the
  exception of \<open>callx\<close> (or \<open>setx\<close>).
\<close>

theorem callx_setx_restore_flags:
  "no_update (snd (callx func s)) = no_update s
   \<and> fst (callx func s) = fst (func (s\<lparr>no_update := True\<rparr>))
   \<and> no_notify (snd (setx setattr keywords s)) = no_notify s
   \<and> fst (setx setattr keywords s) =
       fst (setattr_all setattr keywords (s\<lparr>no_notify := True\<rparr>))"
  by (simp add: callx_def setx_def Let_def split: prod.splits)

theorem callx_setx_restore_flags_witness:
  "no_update (snd (callx (\<lambda>s. (Inl (Raised ''failed''), s\<lparr>selected_row := 2\<rparr>)) example_editor))
     = False
   \<and> fst (callx (\<lambda>s. (Inl (Raised ''failed''), s\<lparr>selected_row := 2\<rparr>)) example_editor)
     = Inl (Raised ''failed'')
   \<and> no_notify (snd (setx (\<lambda>name v s. (Inl (Raised name), s\<lparr>selected_row := v\<rparr>))
        [(''selected_row'', 2)] example_editor)) = False
   \<and> fst (setx (\<lambda>name v s. (Inl (Raised name), s\<lparr>selected_row := v\<rparr>))
        [(''selected_row'', 2)] example_editor) = Inl (Raised ''selected_row'')"
  using callx_setx_restore_flags
    [of "\<lambda>s. (Inl (Raised ''failed''), s\<lparr>selected_row := 2\<rparr>)" example_editor
      "\<lambda>name v s. (Inl (Raised name), s\<lparr>selected_row := v\<rparr>)" "[(''selected_row'', 2)]"]
  by (simp add: example_defs)

subsection \<open>A new selected row\<close>

lemma selected_row_changed_calls:
  assumes "\<not> no_update s"
  shows "r < 0 \<Longrightarrow> selected_row_changed r s = (Inr (), call ClearSelection s)"
    and "0 \<le> r \<Longrightarrow> factory s = Some f \<Longrightarrow>
         selected_row_changed r s =
           (Inr (), call_all
              [SelectIndex r (max (selected_column s) 0) {ClearAndSelect, Rows},
               ScrollTo r (max (selected_column s) 0)
                 (position_hint (scroll_to_position_hint f))] s)"
  using assms
  by (simp_all add: selected_row_changed_def set_scroll_to_row_def notify_def
      scroll_to_row_changed_def call_def)

text \<open>
  Claim C3, as amended. Outside a \<open>_no_update\<close> region, an assignment to \<open>selected_row\<close>
  that changes its value stores the new row \<open>r\<close> and has these effects on the widget. If
  \<open>r\<close> is negative, the selection of the widget is cleared. If \<open>r\<close> is not negative, the
  index of row \<open>r\<close> and column \<open>max(selected_column, 0)\<close> is selected with the flags
  \<open>ClearAndSelect\<close> and \<open>Rows\<close>, and \<open>scroll_to_row\<close> is then fired with \<open>r\<close>, whose handler
  scrolls the view to that same index with the position hint of the factory. An
  assignment of the row that \<open>selected_row\<close> already holds does nothing.
\<close>

theorem selected_row_assignment:
  assumes "\<not> no_update s"
  shows "(selected_row s \<noteq> r \<and> r < 0 \<longrightarrow>
            set_selected_row r s = (Inr (), call ClearSelection (s\<lparr>selected_row := r\<rparr>)))
       \<and> (selected_row s \<noteq> r \<and> 0 \<le> r \<and> factory s = Some f \<longrightarrow>
            set_selected_row r s =
              (Inr (), call_all
                 [SelectIndex r (max (selected_column s) 0) {ClearAndSelect, Rows},
                  ScrollTo r (max (selected_column s) 0)
                    (position_hint (scroll_to_position_hint f))] (s\<lparr>selected_row := r\<rparr>)))
       \<and> (selected_row s = r \<longrightarrow> set_selected_row r s = (Inr (), s))"
proof -
  have live: "\<not> no_update (s\<lparr>selected_row := r\<rparr>)"
    using assms by simp
  have neg: "set_selected_row r s = (Inr (), call ClearSelection (s\<lparr>selected_row := r\<rparr>))"
    if "selected_row s \<noteq> r" "r < 0"
    using that selected_row_changed_calls(1) [OF live, of r]
    by (simp add: set_selected_row_def notify_def)
  have pos: "set_selected_row r s =
      (Inr (), call_all
         [SelectIndex r (max (selected_column s) 0) {ClearAndSelect, Rows},
          ScrollTo r (max (selected_column s) 0)
            (position_hint (scroll_to_position_hint f))] (s\<lparr>selected_row := r\<rparr>))"
    if "selected_row s \<noteq> r" "0 \<le> r" "factory s = Some f"
    using that selected_row_changed_calls(2) [OF live, of r f]
    by (simp add: set_selected_row_def notify_def)
  have same: "set_selected_row r s = (Inr (), s)" if "selected_row s = r"
    using that by (simp add: set_selected_row_def)
  from neg pos same show ?thesis by blast
qed

theorem selected_row_assignment_witness:
  "\<not> no_update example_editor
   \<and> selected_row example_editor \<noteq> 2
   \<and> set_selected_row 2 example_editor =
       (Inr (), call_all [SelectIndex 2 0 {ClearAndSelect, Rows}, ScrollTo 2 0 PositionAtCenter]
          (example_editor\<lparr>selected_row := 2\<rparr>))
   \<and> selected_row (example_editor\<lparr>selected_row := 2\<rparr>) \<noteq> - 1
   \<and> set_selected_row (- 1) (example_editor\<lparr>selected_row := 2\<rparr>) =
       (Inr (), call ClearSelection (example_editor\<lparr>selected_row := - 1\<rparr>))"
proof -
  have live: "\<not> no_update example_editor"
    and live2: "\<not> no_update (example_editor\<lparr>selected_row := 2\<rparr>)"
    and fac: "factory example_editor = Some example_factory"
    and row: "selected_row example_editor \<noteq> 2"
    and col: "max (selected_column example_editor) 0 = 0"
    and hint: "position_hint (scroll_to_position_hint example_factory) = PositionAtCenter"
    by (simp_all add: example_defs position_hint_def SCROLL_TO_POSITION_HINT_MAP_def)
  show ?thesis
    using live fac row col hint
      selected_row_assignment [OF live, of 2 example_factory]
      selected_row_assignment [OF live2, of "- 1" example_factory]
    by simp
qed

text \<open>
  The claim as first stated is about every assignment. Assigning -1 while \<open>selected_row\<close>
  is -1, or 1 while it is 1, makes no call on the widget: the selection is not cleared,
  no row is selected and the view is not scrolled.
\<close>

theorem selected_row_assignment_counterexample:
  "no_update example_editor = False
   \<and> selected_row example_editor = - 1
   \<and> set_selected_row (- 1) example_editor = (Inr (), example_editor)
   \<and> calls (control (snd (set_selected_row (- 1) example_editor))) = []
   \<and> set_selected_row 1 (example_editor\<lparr>selected_row := 1\<rparr>)
       = (Inr (), example_editor\<lparr>selected_row := 1\<rparr>)"
  by (simp add: set_selected_row_def example_defs)

subsection \<open>The context menu of a column\<close>

text \<open>
  Claim C6, as amended. On a context-menu event on the header at position \<open>pos\<close>, with
  \<open>c\<close> the column at \<open>pos\<close>: if the adapter gives a column menu for \<open>c\<close> (asked with row
  -1), \<open>_menu_context\<close> is set to the context of column \<open>c\<close>, the menu is created and then
  executed, the execution finds \<open>_menu_context\<close> set, and \<open>_menu_context\<close> is \<open>None\<close>
  afterwards, as long as neither the creation nor the execution raises; if one of them
  raises, the exception leaves the method and \<open>_menu_context\<close> stays set. If the adapter
  gives no menu, the editor makes no call on the widget and sets \<open>column_right_clicked\<close>
  to an event of row 0 and column \<open>c\<close>.
\<close>

theorem on_column_context_menu_dispatch:
  "(get_column_menu (adapter s) (- 1) (columnAt (control s) (pos_x pos)) = Some m
      \<and> create_menu_raises (control s) m = None \<and> exec_raises (control s) m = None \<longrightarrow>
      on_column_context_menu pos s =
        (Inr (), (call_all
           [CreateMenu m,
            ExecMenu m pos
              (Some \<lparr>ctx_column = columnAt (control s) (pos_x pos), ctx_row = None\<rparr>)] s)
           \<lparr>menu_context := None\<rparr>))
   \<and> (get_column_menu (adapter s) (- 1) (columnAt (control s) (pos_x pos)) = Some m
      \<and> create_menu_raises (control s) m = Some e \<longrightarrow>
      on_column_context_menu pos s =
        (Inl e, s\<lparr>menu_context :=
                    Some \<lparr>ctx_column = columnAt (control s) (pos_x pos), ctx_row = None\<rparr>\<rparr>))
   \<and> (get_column_menu (adapter s) (- 1) (columnAt (control s) (pos_x pos)) = Some m
      \<and> create_menu_raises (control s) m = None \<and> exec_raises (control s) m = Some e \<longrightarrow>
      on_column_context_menu pos s =
        (Inl e, (call (CreateMenu m) s)
           \<lparr>menu_context :=
              Some \<lparr>ctx_column = columnAt (control s) (pos_x pos), ctx_row = None\<rparr>\<rparr>))
   \<and> (get_column_menu (adapter s) (- 1) (columnAt (control s) (pos_x pos)) = None \<longrightarrow>
      on_column_context_menu pos s =
        (Inr (), s\<lparr>column_right_clicked :=
             Some \<lparr>row = 0, column = columnAt (control s) (pos_x pos)\<rparr>\<rparr>))"
  by (simp add: on_column_context_menu_def on_column_right_click_def call_def Let_def)

theorem on_column_context_menu_dispatch_witness:
  "get_column_menu (adapter example_editor) (- 1)
       (columnAt (control example_editor) (pos_x \<lparr>pos_x = 10, pos_y = 5\<rparr>)) = Some (Menu ''column'')
   \<and> create_menu_raises (control example_editor) (Menu ''column'') = None
   \<and> exec_raises (control example_editor) (Menu ''column'') = None
   \<and> on_column_context_menu \<lparr>pos_x = 10, pos_y = 5\<rparr> example_editor =
       (Inr (), (call_all
          [CreateMenu (Menu ''column''),
           ExecMenu (Menu ''column'') \<lparr>pos_x = 10, pos_y = 5\<rparr>
             (Some \<lparr>ctx_column = 0, ctx_row = None\<rparr>)] example_editor)
          \<lparr>menu_context := None\<rparr>)
   \<and> get_column_menu (adapter example_editor) (- 1)
       (columnAt (control example_editor) (pos_x \<lparr>pos_x = 100, pos_y = 5\<rparr>)) = None
   \<and> on_column_context_menu \<lparr>pos_x = 100, pos_y = 5\<rparr> example_editor =
       (Inr (), example_editor\<lparr>column_right_clicked := Some \<lparr>row = 0, column = 1\<rparr>\<rparr>)"
proof -
  have c0: "columnAt (control example_editor) (pos_x \<lparr>pos_x = 10, pos_y = 5\<rparr>) = 0"
    and c1: "columnAt (control example_editor) (pos_x \<lparr>pos_x = 100, pos_y = 5\<rparr>) = 1"
    by (simp_all add: example_defs)
  have m0: "get_column_menu (adapter example_editor) (- 1) 0 = Some (Menu ''column'')"
    and m1: "get_column_menu (adapter example_editor) (- 1) 1 = None"
    and quiet: "create_menu_raises (control example_editor) (Menu ''column'') = None"
      "exec_raises (control example_editor) (Menu ''column'') = None"
    by (simp_all add: example_defs)
  show ?thesis
    using c0 c1 m0 m1 quiet
      on_column_context_menu_dispatch [of example_editor "\<lparr>pos_x = 10, pos_y = 5\<rparr>"
        "Menu ''column''" ValueError]
      on_column_context_menu_dispatch [of example_editor "\<lparr>pos_x = 100, pos_y = 5\<rparr>"
        "Menu ''column''" ValueError]
    by simp
qed

text \<open>
  The claim as first stated has \<open>_menu_context\<close> reset in every case. When the execution
  of the menu raises, the exception leaves \<open>_on_column_context_menu\<close> and
  \<open>_menu_context\<close> still holds the context of the column.
\<close>

theorem on_column_context_menu_counterexample:
  "get_column_menu (adapter example_failing_menu_editor) (- 1)
       (columnAt (control example_failing_menu_editor) (pos_x \<lparr>pos_x = 10, pos_y = 5\<rparr>))
     = Some (Menu ''column'')
   \<and> fst (on_column_context_menu \<lparr>pos_x = 10, pos_y = 5\<rparr> example_failing_menu_editor)
     = Inl (Raised ''action'')
   \<and> menu_context
       (snd (on_column_context_menu \<lparr>pos_x = 10, pos_y = 5\<rparr> example_failing_menu_editor))
     = Some \<lparr>ctx_column = 0, ctx_row = None\<rparr>"
  by (simp add: on_column_context_menu_def example_failing_menu_editor_def example_defs
      call_def Let_def)

subsection \<open>Deleting rows from the keyboard\<close>

lemma removed_rows_append: "removed_rows (xs @ ys) = removed_rows xs @ removed_rows ys"
  by (induction xs rule: removed_rows.induct) simp_all

lemma removed_rows_map: "removed_rows (map RemoveRow rs) = rs"
  by (induction rs) simp_all

lemma calls_call_all: "calls (control (call_all cs s)) = calls (control s) @ cs"
  by (simp add: call_all_eq)

lemma descending_rev_sort: "sorted_wrt (\<ge>) (rev (sort (rs::int list)))"
  by (simp add: sorted_wrt_rev)

lemma strictly_descending_rev_sort:
  "sorted_wrt (>) (rev (sort (rs::int list))) \<longleftrightarrow> distinct rs"
  by (simp add: sorted_wrt_rev strict_sorted_iff)

text \<open>
  Claim C4, as amended. On a press of Delete or Backspace with the editor editable and
  \<open>delete\<close> among the operations of the factory: in multi-select mode \<open>removeRow\<close> is
  called once for each entry of \<open>multi_selected_rows\<close>, in descending row order, and the
  order is strictly descending (so that no removal shifts a row still to be removed)
  exactly when no row occurs twice in \<open>multi_selected_rows\<close>; in single-select mode the
  row \<open>selected_row\<close> is removed if and only if \<open>selected_row\<close> is not -1. When the editor
  is not editable or \<open>delete\<close> is not allowed, no row is removed.
\<close>

theorem delete_key_removes_rows:
  assumes "k \<in> {Key_Backspace, Key_Delete}" and "factory s = Some f"
  shows "(editable f \<and> ''delete'' \<in> set (operations f) \<and> multi_select f \<longrightarrow>
            removed_rows (calls (control (snd (keyPressEvent k s)))) =
              removed_rows (calls (control s)) @ rev (sort (multi_selected_rows s))
            \<and> mset (rev (sort (multi_selected_rows s))) = mset (multi_selected_rows s)
            \<and> sorted_wrt (\<ge>) (rev (sort (multi_selected_rows s)))
            \<and> (sorted_wrt (>) (rev (sort (multi_selected_rows s)))
                 \<longleftrightarrow> distinct (multi_selected_rows s)))
       \<and> (editable f \<and> ''delete'' \<in> set (operations f) \<and> \<not> multi_select f \<longrightarrow>
            removed_rows (calls (control (snd (keyPressEvent k s)))) =
              removed_rows (calls (control s))
                @ (if selected_row s \<noteq> - 1 then [selected_row s] else []))
       \<and> (\<not> (editable f \<and> ''delete'' \<in> set (operations f)) \<longrightarrow>
            removed_rows (calls (control (snd (keyPressEvent k s)))) =
              removed_rows (calls (control s)))"
proof -
  have multi: "removed_rows (calls (control (snd (keyPressEvent k s)))) =
      removed_rows (calls (control s)) @ rev (sort (multi_selected_rows s))"
    if "editable f" "''delete'' \<in> set (operations f)" "multi_select f"
    using assms that
    by (auto simp: keyPressEvent_def Let_def calls_call_all call_def removed_rows_append
        removed_rows_map)
  have single: "removed_rows (calls (control (snd (keyPressEvent k s)))) =
      removed_rows (calls (control s)) @ (if selected_row s \<noteq> - 1 then [selected_row s] else [])"
    if "editable f" "''delete'' \<in> set (operations f)" "\<not> multi_select f"
    using assms that
    by (auto simp: keyPressEvent_def Let_def call_def removed_rows_append)
  have none: "removed_rows (calls (control (snd (keyPressEvent k s)))) =
      removed_rows (calls (control s))"
    if "\<not> (editable f \<and> ''delete'' \<in> set (operations f))"
    using assms that
    by (auto simp: keyPressEvent_def Let_def call_def removed_rows_append)
  show ?thesis
    using multi single none descending_rev_sort [of "multi_selected_rows s"]
      strictly_descending_rev_sort [of "multi_selected_rows s"]
    by simp
qed

theorem delete_key_removes_rows_witness:
  "Key_Delete \<in> {Key_Backspace, Key_Delete}
   \<and> removed_rows (calls (control (snd (keyPressEvent Key_Delete
        (example_multi_editor\<lparr>multi_selected_rows := [0, 2, 1]\<rparr>))))) = [2, 1, 0]
   \<and> sorted_wrt (>) [2, 1, 0 :: int]
   \<and> removed_rows (calls (control (snd (keyPressEvent Key_Delete
        (example_editor\<lparr>selected_row := 1\<rparr>))))) = [1]
   \<and> removed_rows (calls (control (snd (keyPressEvent Key_Delete example_editor)))) = []
   \<and> removed_rows (calls (control (snd (keyPressEvent Key_Delete
        (example_editor\<lparr>selected_row := 1,
           factory := Some (example_factory\<lparr>editable := False\<rparr>)\<rparr>))))) = []"
proof -
  have k: "Key_Delete \<in> {Key_Backspace, Key_Delete}"
    by simp
  have f1: "factory (example_multi_editor\<lparr>multi_selected_rows := [0, 2, 1]\<rparr>)
      = Some (example_factory\<lparr>multi_select := True\<rparr>)"
    and f2: "factory (example_editor\<lparr>selected_row := 1\<rparr>) = Some example_factory"
    and f3: "factory example_editor = Some example_factory"
    and f4: "factory (example_editor\<lparr>selected_row := 1,
        factory := Some (example_factory\<lparr>editable := False\<rparr>)\<rparr>)
      = Some (example_factory\<lparr>editable := False\<rparr>)"
    by (simp_all add: example_multi_editor_def example_defs)
  show ?thesis
    using k delete_key_removes_rows [OF k f1] delete_key_removes_rows [OF k f2]
      delete_key_removes_rows [OF k f3] delete_key_removes_rows [OF k f4]
    by (simp add: example_multi_editor_def example_defs)
qed

text \<open>
  The claim as first stated asks for a strictly descending order in every case. With the
  second row named twice in \<open>multi_selected_rows\<close>, \<open>removeRow(1)\<close> is called twice.
\<close>

theorem delete_key_duplicate_rows_counterexample:
  "removed_rows (calls (control (snd (keyPressEvent Key_Delete example_multi_editor)))) = [1, 1]
   \<and> \<not> sorted_wrt (>)
        (removed_rows (calls (control (snd (keyPressEvent Key_Delete example_multi_editor)))))"
  by (simp add: keyPressEvent_def example_multi_editor_def example_defs call_def)

subsection \<open>Resizing the columns\<close>

lemma columnResized_resizing:
  "is_resizing (control s) \<Longrightarrow> columnResized ccw (Suc k) i old new s = Some (Inr (), s)"
  by (simp add: columnResized.simps)

lemma deliver_resizing:
  "is_resizing (control s) \<Longrightarrow> deliver (columnResized ccw (Suc k)) signals s = Some (Inr (), s)"
  by (induction signals) (auto simp: columnResized_resizing)

lemma resize_sections_resizing:
  "is_resizing (control s) \<Longrightarrow>
   \<exists>r cs. resize_sections (columnResized ccw (Suc k)) cws s = Some (r, call_all cs s)"
proof (induction cws arbitrary: s)
  case Nil
  have "resize_sections (columnResized ccw (Suc k)) [] s = Some (Inr (), call_all [] s)"
    by simp
  then show ?case by blast
next
  case (Cons cw cws)
  obtain c w where cw: "cw = (c, w)" by (cases cw)
  show ?case
  proof (cases "resizeSection_raises (control s) c w")
    case (Some e)
    then have "resize_sections (columnResized ccw (Suc k)) (cw # cws) s
        = Some (Inl e, call_all [] s)"
      by (simp add: cw)
    then show ?thesis by blast
  next
    case None
    let ?s' = "call (ResizeSection c w) s"
    have res: "is_resizing (control ?s')"
      using Cons.prems by (simp add: call_def)
    from Cons.IH [OF res] obtain r cs where
      rest: "resize_sections (columnResized ccw (Suc k)) cws ?s' = Some (r, call_all cs ?s')"
      by blast
    have "deliver (columnResized ccw (Suc k)) (sectionResized (control s) c w) ?s'
        = Some (Inr (), ?s')"
      using res by (rule deliver_resizing)
    then have "resize_sections (columnResized ccw (Suc k)) (cw # cws) s
        = Some (r, call_all (ResizeSection c w # cs) s)"
      using None rest by (simp add: cw)
    then show ?thesis by blast
  qed
qed

lemma resize_sections_all:
  "is_resizing (control s) \<Longrightarrow>
   (\<And>c w. resizeSection_raises (control s) c w = None) \<Longrightarrow>
   resize_sections (columnResized ccw (Suc k)) cws s
     = Some (Inr (), call_all (map (\<lambda>(c, w). ResizeSection c w) cws) s)"
proof (induction cws arbitrary: s)
  case Nil
  then show ?case by simp
next
  case (Cons cw cws)
  obtain c w where cw: "cw = (c, w)" by (cases cw)
  let ?s' = "call (ResizeSection c w) s"
  have res: "is_resizing (control ?s')"
    and ok: "\<And>c w. resizeSection_raises (control ?s') c w = None"
    using Cons.prems by (simp_all add: call_def)
  have "deliver (columnResized ccw (Suc k)) (sectionResized (control s) c w) ?s'
      = Some (Inr (), ?s')"
    using res by (rule deliver_resizing)
  then show ?case
    using Cons.IH [OF res ok] Cons.prems(2) by (simp add: cw)
qed

lemma resize_sections_fuel:
  "is_resizing (control s) \<Longrightarrow>
   resize_sections (columnResized ccw (Suc k)) cws s
     = resize_sections (columnResized ccw (Suc 0)) cws s"
proof (induction cws arbitrary: s)
  case Nil
  then show ?case by simp
next
  case (Cons cw cws)
  obtain c w where cw: "cw = (c, w)" by (cases cw)
  let ?s' = "call (ResizeSection c w) s"
  have res: "is_resizing (control ?s')"
    using Cons.prems by (simp add: call_def)
  have "deliver (columnResized ccw (Suc k)) (sectionResized (control s) c w) ?s'
      = Some (Inr (), ?s')"
    and "deliver (columnResized ccw (Suc 0)) (sectionResized (control s) c w) ?s'
      = Some (Inr (), ?s')"
    using res by (rule deliver_resizing)+
  then show ?case
    using Cons.IH [OF res] by (simp add: cw split: option.splits)
qed

lemma zip_upt_nth:
  "map (\<lambda>(c, w). ResizeSection c w) (zip [0..<length ws] ws)
     = map (\<lambda>c. ResizeSection c (ws ! c)) [0..<length ws]"
  by (rule nth_equalityI) simp_all

lemma factory_set_user_widths [simp]: "factory (set_user_widths u s) = factory s"
  by (simp add: set_user_widths_def)

lemma guarded_resize:
  assumes "factory s = Some f" and "\<not> auto_resize f"
  shows "\<exists>r cs. resizeColumnsToContents ccw (Suc (Suc k)) s
           = Some (r, set_is_resizing False (call_all cs s))"
proof -
  let ?widths = "ccw (real_of_int (viewport_width (control s)))
      (map (get_width (adapter s)) [0..<length (columns (adapter s))])
      (map (\<lambda>c. size_hint f c s) [0..<length (columns (adapter s))])
      (user_widths (control s))"
  have "is_resizing (control (set_is_resizing True s))"
    by (simp add: set_is_resizing_def)
  from resize_sections_resizing [OF this, of ccw k "zip [0..<length ?widths] ?widths"]
  obtain r cs where
    "resize_sections (columnResized ccw (Suc k)) (zip [0..<length ?widths] ?widths)
       (set_is_resizing True s) = Some (r, call_all cs (set_is_resizing True s))"
    by blast
  then have "resizeColumnsToContents ccw (Suc (Suc k)) s
      = Some (r, set_is_resizing False (call_all cs (set_is_resizing True s)))"
    using assms by (simp add: resizeColumnsToContents.simps Let_def)
  moreover have "set_is_resizing False (call_all cs (set_is_resizing True s))
      = set_is_resizing False (call_all cs s)"
    by (simp add: set_is_resizing_def call_all_eq)
  ultimately show ?thesis by auto
qed

lemma guarded_resize_fuel:
  assumes "factory s = Some f" and "\<not> auto_resize f"
  shows "resizeColumnsToContents ccw (Suc (Suc k)) s = resizeColumnsToContents ccw (Suc (Suc 0)) s"
proof -
  have res: "is_resizing (control (set_is_resizing True s))"
    by (simp add: set_is_resizing_def)
  have eq: "resize_sections (columnResized ccw (Suc k)) cws (set_is_resizing True s)
      = resize_sections (columnResized ccw (Suc 0)) cws (set_is_resizing True s)" for cws
    using res by (rule resize_sections_fuel)
  show ?thesis
    using assms by (simp add: resizeColumnsToContents.simps Let_def eq)
qed

text \<open>
  Claim C5. With \<open>auto_resize\<close> false, \<open>sizeHintForColumn\<close> returns for every column the
  width the adapter supplies when that width is greater than 1, and the section size
  hint of the horizontal header otherwise; and \<open>resizeColumnsToContents\<close> resizes the
  sections, in order, to the widths that \<open>compute_column_widths\<close> returns for the width
  of the viewport, the widths the adapter requests for the columns, those size hints as
  minimum widths, and the recorded user widths: every column, when
  \<open>compute_column_widths\<close> returns one width per column. The toolkit is taken not to
  raise in \<open>resizeSection\<close>.
\<close>

theorem resize_columns_to_contents_layout:
  assumes "factory s = Some f" and "\<not> auto_resize f"
    and "\<And>c w. resizeSection_raises (control s) c w = None"
  shows "let n = length (columns (adapter s));
             hint = (\<lambda>c. if get_width (adapter s) c > 1 then get_width (adapter s) c
                         else real_of_int (sectionSizeHint (control s) c));
             widths = ccw (real_of_int (viewport_width (control s)))
                        (map (get_width (adapter s)) [0..<n]) (map hint [0..<n])
                        (user_widths (control s))
         in (\<forall>c. sizeHintForColumn c s = Inr (hint c))
          \<and> resizeColumnsToContents ccw (Suc (Suc k)) s =
              Some (Inr (), set_is_resizing False
                 (call_all (map (\<lambda>c. ResizeSection c (widths ! c)) [0..<length widths]) s))
          \<and> (length widths = n \<longrightarrow>
               resizeColumnsToContents ccw (Suc (Suc k)) s =
                 Some (Inr (), set_is_resizing False
                    (call_all (map (\<lambda>c. ResizeSection c (widths ! c)) [0..<n]) s)))"
proof -
  let ?n = "length (columns (adapter s))"
  let ?hint = "\<lambda>c. if get_width (adapter s) c > 1 then get_width (adapter s) c
                   else real_of_int (sectionSizeHint (control s) c)"
  let ?widths = "ccw (real_of_int (viewport_width (control s)))
      (map (get_width (adapter s)) [0..<?n]) (map ?hint [0..<?n]) (user_widths (control s))"
  have hint: "size_hint f c s = ?hint c" for c
    using assms(2) by (simp add: size_hint_def Let_def)
  have sh: "sizeHintForColumn c s = Inr (?hint c)" for c
    using assms(1) hint by (simp add: sizeHintForColumn_def)
  have res: "is_resizing (control (set_is_resizing True s))"
    and ok: "\<And>c w. resizeSection_raises (control (set_is_resizing True s)) c w = None"
    using assms(3) by (simp_all add: set_is_resizing_def)
  have "resizeColumnsToContents ccw (Suc (Suc k)) s =
      Some (Inr (), set_is_resizing False
        (call_all (map (\<lambda>(c, w). ResizeSection c w) (zip [0..<length ?widths] ?widths))
           (set_is_resizing True s)))"
    using assms(1,2) resize_sections_all [OF res ok, of ccw k "zip [0..<length ?widths] ?widths"]
    by (simp add: resizeColumnsToContents.simps Let_def hint)
  moreover have "set_is_resizing False (call_all cs (set_is_resizing True s))
      = set_is_resizing False (call_all cs s)" for cs
    by (simp add: set_is_resizing_def call_all_eq)
  ultimately have run: "resizeColumnsToContents ccw (Suc (Suc k)) s =
      Some (Inr (), set_is_resizing False
        (call_all (map (\<lambda>c. ResizeSection c (?widths ! c)) [0..<length ?widths]) s))"
    by (simp add: zip_upt_nth)
  show ?thesis
    unfolding Let_def using sh run by auto
qed

theorem resize_columns_to_contents_layout_witness:
  "factory example_editor = Some example_factory
   \<and> \<not> auto_resize example_factory
   \<and> sizeHintForColumn 0 example_editor = Inr 80
   \<and> sizeHintForColumn 1 example_editor = Inr 40
   \<and> resizeColumnsToContents example_ccw 2 example_editor =
       Some (Inr (), set_is_resizing False
          (call_all [ResizeSection 0 80, ResizeSection 1 40] example_editor))"
proof -
  have fac: "factory example_editor = Some example_factory"
    and fixed: "\<not> auto_resize example_factory"
    and ok: "\<And>c w. resizeSection_raises (control example_editor) c w = None"
    by (simp_all add: example_defs)
  have n: "length (columns (adapter example_editor)) = 2"
    and w0: "get_width (adapter example_editor) 0 = 80"
    and w1: "get_width (adapter example_editor) (Suc 0) = 1 / 2"
    and h: "sectionSizeHint (control example_editor) (Suc 0) = 40"
    by (simp_all add: example_defs)
  show ?thesis
    using fac fixed resize_columns_to_contents_layout [OF fac fixed ok, of example_ccw 0]
    by (simp add: Let_def n example_columns example_ccw_def w0 w1 h numeral_2_eq_2)
qed

text \<open>
  Claim C10, as amended. With \<open>auto_resize\<close> false, \<open>resizeColumnsToContents\<close> never
  records a user width: whatever signals the header delivers during its resizes and
  whether or not a resize raises, it returns with \<open>_user_widths\<close> as it was and with
  \<open>_is_resizing\<close> false, and it needs no deeper nesting of calls than two levels, so it
  does not recurse. \<open>columnResized\<close> does nothing while \<open>_is_resizing\<close> is true; a
  resize that arrives while it is false is recorded at its column, and the layout that
  follows leaves the record as it is.
\<close>

theorem programmatic_resize_keeps_user_widths:
  assumes "factory s = Some f" and "\<not> auto_resize f"
  shows "(\<exists>r s'. resizeColumnsToContents ccw (Suc (Suc k)) s = Some (r, s')
            \<and> user_widths (control s') = user_widths (control s)
            \<and> \<not> is_resizing (control s'))
       \<and> resizeColumnsToContents ccw (Suc (Suc k)) s = resizeColumnsToContents ccw 2 s
       \<and> (is_resizing (control s) \<longrightarrow>
            columnResized ccw (Suc k) i old new s = Some (Inr (), s))
       \<and> (\<not> is_resizing (control s)
            \<and> uw = (case user_widths (control s) of
                       None \<Rightarrow> replicate (length (columns (adapter s))) None
                     | Some u \<Rightarrow> u)
            \<and> i < length uw \<longrightarrow>
            (\<exists>r s'. columnResized ccw (Suc (Suc (Suc k))) i old new s = Some (r, s')
               \<and> user_widths (control s') = Some (uw[i := Some new])
               \<and> \<not> is_resizing (control s')))"
proof -
  obtain r cs where run: "resizeColumnsToContents ccw (Suc (Suc k)) s
      = Some (r, set_is_resizing False (call_all cs s))"
    using guarded_resize [OF assms] by blast
  have first: "\<exists>r s'. resizeColumnsToContents ccw (Suc (Suc k)) s = Some (r, s')
      \<and> user_widths (control s') = user_widths (control s) \<and> \<not> is_resizing (control s')"
    unfolding run by (simp add: set_is_resizing_def call_all_eq)
  have fuel: "resizeColumnsToContents ccw (Suc (Suc k)) s = resizeColumnsToContents ccw 2 s"
    using guarded_resize_fuel [OF assms] by (simp add: numeral_2_eq_2)
  have user: "\<exists>r s'. columnResized ccw (Suc (Suc (Suc k))) i old new s = Some (r, s')
      \<and> user_widths (control s') = Some (uw[i := Some new]) \<and> \<not> is_resizing (control s')"
    if "\<not> is_resizing (control s)"
      and "uw = (case user_widths (control s) of
                   None \<Rightarrow> replicate (length (columns (adapter s))) None
                 | Some u \<Rightarrow> u)"
      and "i < length uw"
  proof -
    let ?s2 = "set_user_widths (Some (uw[i := Some new])) (set_user_widths (Some uw) s)"
    have fac: "factory ?s2 = Some f"
      using assms(1) by simp
    obtain r' cs' where "resizeColumnsToContents ccw (Suc (Suc k)) ?s2
        = Some (r', set_is_resizing False (call_all cs' ?s2))"
      using guarded_resize [OF fac assms(2)] by blast
    then have "columnResized ccw (Suc (Suc (Suc k))) i old new s
        = Some (r', set_is_resizing False (call_all cs' ?s2))"
      using that assms by (simp add: columnResized.simps Let_def)
    then show ?thesis
      by (simp add: set_is_resizing_def call_all_eq set_user_widths_def)
  qed
  show ?thesis
    using first fuel user columnResized_resizing [of s ccw k i old new] by blast
qed

theorem programmatic_resize_keeps_user_widths_witness:
  "factory example_editor = Some example_factory
   \<and> \<not> auto_resize example_factory
   \<and> (\<exists>r s'. resizeColumnsToContents example_ccw 2 example_editor = Some (r, s')
         \<and> user_widths (control s') = None \<and> \<not> is_resizing (control s'))
   \<and> columnResized example_ccw 1 0 100 50 (set_is_resizing True example_editor) =
       Some (Inr (), set_is_resizing True example_editor)
   \<and> (\<exists>r s'. columnResized example_ccw 3 0 100 50 example_editor = Some (r, s')
         \<and> user_widths (control s') = Some [Some 50, None] \<and> \<not> is_resizing (control s'))"
proof -
  have fac: "factory example_editor = Some example_factory"
    and fixed: "\<not> auto_resize example_factory"
    and none: "user_widths (control example_editor) = None"
    by (simp_all add: example_defs)
  have fac1: "factory (set_is_resizing True example_editor) = Some example_factory"
    and res: "is_resizing (control (set_is_resizing True example_editor))"
    by (simp_all add: set_is_resizing_def fac)
  have idle: "\<not> is_resizing (control example_editor)"
    and uw: "(case user_widths (control example_editor) of
                None \<Rightarrow> replicate (length (columns (adapter example_editor))) None
              | Some u \<Rightarrow> u) = [None, None]"
    by (simp_all add: example_defs numeral_2_eq_2)
  show ?thesis
    using fac fixed none res idle uw
      programmatic_resize_keeps_user_widths [OF fac fixed, where ccw = example_ccw and k = 0
        and i = 0 and old = 100 and new = 50 and uw = "[None, None]"]
      programmatic_resize_keeps_user_widths [OF fac1 fixed, where ccw = example_ccw and k = 0
        and i = 0 and old = 100 and new = 50 and uw = "[]"]
    by (simp add: numeral_2_eq_2 numeral_3_eq_3)
qed

text \<open>
  The claim as first stated holds for every factory. With \<open>auto_resize\<close> set,
  \<open>resizeColumnsToContents\<close> hands over to the toolkit's implementation outside the
  \<open>_resizing\<close> guard: the signal that implementation delivers for the first column is
  recorded in \<open>_user_widths\<close>, though no user resized a column.
\<close>

theorem auto_resize_records_widths_counterexample:
  "user_widths (control example_auto_editor) = None
   \<and> is_resizing (control example_auto_editor) = False
   \<and> resizeColumnsToContents example_ccw 2 example_auto_editor =
       Some (Inr (), set_user_widths (Some [Some 50, None])
                       (call SuperResizeColumnsToContents example_auto_editor))"
  by (simp add: numeral_2_eq_2 resizeColumnsToContents.simps columnResized.simps
      example_auto_editor_def example_defs call_def set_user_widths_def)

subsection \<open>Saving and restoring the column widths\<close>




lemma set_user_widths_twice [simp]:
  "set_user_widths u (set_user_widths u' s) = set_user_widths u s"
  by (simp add: set_user_widths_def)






lemma pairs_calls:
  "map (\<lambda>(c, w). SetColumnWidth c w) (map (\<lambda>c. (c, ws ! c)) cs)
     = map (\<lambda>c. SetColumnWidth c (ws ! c)) cs"
  by simp












end
